theory Spec2Isabelle
  imports Main "HOL-Library.Word"
begin

section \<open>Run-time values\<close>

text \<open>
  The message classes \<^verbatim>\<open>MsgStoreCode\<close> (\<^verbatim>\<open>src/core/jax/msgs/MsgStoreCode.ts\<close>) and
  \<^verbatim>\<open>MsgUpdateClient\<close> are TypeScript, whose annotations are erased when the program
  runs: \<^verbatim>\<open>fromAmino\<close> and \<^verbatim>\<open>fromData\<close> receive parsed JSON and cast it
  (\<^verbatim>\<open>data as MsgStoreCode.AminoV2\<close>), so a field of a message holds whatever the payload
  held. Payloads, protobuf message objects and envelopes are therefore JavaScript values;
  an object is the finite map of its own properties, so that equality of two objects is
  field-wise equality. Strings are lists of bytes, binary buffers are lists of 8-bit words.
\<close>

type_synonym bytes = "8 word list"

datatype jsval =
    JUndefined
  | JNull
  | JBool bool
  | JNumber int
  | JString string
  | JBytes bytes
  | JArray "jsval list"
  | JObject "string \<Rightarrow> jsval option"

text \<open>
  What the code can throw: \<^verbatim>\<open>new Error(msg)\<close>, the \<^verbatim>\<open>TypeError\<close> of reading a
  property of \<^verbatim>\<open>undefined\<close> or \<^verbatim>\<open>null\<close>, and the \<^verbatim>\<open>RangeError\<close> of a reader that
  runs past its buffer.
\<close>

datatype error = Error string | TypeError | RangeError string

definition bindE :: "error + 'a \<Rightarrow> ('a \<Rightarrow> error + 'b) \<Rightarrow> error + 'b" where
  "bindE r f = (case r of Inl e \<Rightarrow> Inl e | Inr x \<Rightarrow> f x)"

fun nullish :: "jsval \<Rightarrow> bool" where
  "nullish JUndefined = True"
| "nullish JNull = True"
| "nullish _ = False"

text \<open>
  \<^verbatim>\<open>o.k\<close> on a value that is neither \<^verbatim>\<open>undefined\<close> nor \<^verbatim>\<open>null\<close>. None of the keys
  read in this program is a property of a primitive's or an array's prototype, so only
  objects answer with something other than \<^verbatim>\<open>undefined\<close>.
\<close>

fun js_prop :: "jsval \<Rightarrow> string \<Rightarrow> jsval" where
  "js_prop (JObject f) k = (case f k of None \<Rightarrow> JUndefined | Some v \<Rightarrow> v)"
| "js_prop _ k = JUndefined"

text \<open>Property access and destructuring: a \<^verbatim>\<open>TypeError\<close> on \<^verbatim>\<open>undefined\<close> and \<^verbatim>\<open>null\<close>.\<close>

definition js_get :: "jsval \<Rightarrow> string \<Rightarrow> error + jsval" where
  "js_get v k = (if nullish v then Inl TypeError else Inr (js_prop v k))"

text \<open>The operator \<^verbatim>\<open>a ?? b\<close>.\<close>

definition nullish_coalesce :: "jsval \<Rightarrow> jsval \<Rightarrow> jsval" where
  "nullish_coalesce a b = (if nullish a then b else a)"

section \<open>The protobuf library\<close>

text \<open>
  The generated protobuf types \<^verbatim>\<open>MsgStoreCode_pb\<close>, \<^verbatim>\<open>MsgUpdateClient_pb\<close> and
  \<^verbatim>\<open>Any\<close> come from the package \<^verbatim>\<open>@terra-money/terra.proto\<close>. Their binary
  \<^verbatim>\<open>encode(...).finish()\<close> and \<^verbatim>\<open>decode\<close> are parameters of the model; their
  \<^verbatim>\<open>fromPartial\<close> is the generated assignment of each field, with the proto3 default
  where the argument has none.
\<close>

record pb_codec =
  pb_encode :: "jsval \<Rightarrow> bytes"
  pb_decode :: "jsval \<Rightarrow> error + jsval"

definition Any_fromPartial :: "jsval \<Rightarrow> jsval" where
  "Any_fromPartial object = JObject [
     ''typeUrl'' \<mapsto> nullish_coalesce (js_prop object ''typeUrl'') (JString ''''),
     ''value'' \<mapsto> nullish_coalesce (js_prop object ''value'') (JBytes [])]"

definition MsgStoreCode_pb_fromPartial :: "jsval \<Rightarrow> jsval" where
  "MsgStoreCode_pb_fromPartial object = JObject [
     ''creator'' \<mapsto> nullish_coalesce (js_prop object ''creator'') (JString ''''),
     ''admin'' \<mapsto> nullish_coalesce (js_prop object ''admin'') (JString ''''),
     ''code'' \<mapsto> nullish_coalesce (js_prop object ''code'') (JString ''''),
     ''params'' \<mapsto> nullish_coalesce (js_prop object ''params'') (JString '''')]"

definition MsgUpdateClient_pb_fromPartial :: "jsval \<Rightarrow> jsval" where
  "MsgUpdateClient_pb_fromPartial object = JObject [
     ''clientId'' \<mapsto> nullish_coalesce (js_prop object ''clientId'') (JString ''''),
     ''clientMessage'' \<mapsto>
        (if \<not> nullish (js_prop object ''clientMessage'')
         then Any_fromPartial (js_prop object ''clientMessage'') else JUndefined),
     ''signer'' \<mapsto> nullish_coalesce (js_prop object ''signer'') (JString '''')]"

section \<open>MsgStoreCode\<close>

record MsgStoreCode =
  creator :: jsval
  admin :: jsval
  code :: jsval
  params :: jsval

text \<open>
  The declared type of the fields (\<^verbatim>\<open>AccAddress\<close> and \<^verbatim>\<open>string\<close>): what a
  \<^verbatim>\<open>MsgStoreCode\<close> value is for the type checker.
\<close>

fun is_string :: "jsval \<Rightarrow> bool" where
  "is_string (JString s) = True"
| "is_string _ = False"

definition MsgStoreCode_typed :: "MsgStoreCode \<Rightarrow> bool" where
  "MsgStoreCode_typed m =
     (is_string (creator m) \<and> is_string (admin m) \<and> is_string (code m) \<and> is_string (params m))"

definition MsgStoreCode_fromAmino :: "jsval \<Rightarrow> bool option \<Rightarrow> error + MsgStoreCode" where
  "MsgStoreCode_fromAmino data' isClassic =
     bindE (js_get data' ''value'') (\<lambda>v.
     bindE (js_get v ''creator'') (\<lambda>creator'.
     bindE (js_get v ''admin'') (\<lambda>admin'.
     bindE (js_get v ''code'') (\<lambda>code'.
     bindE (js_get v ''params'') (\<lambda>params'.
       Inr \<lparr>creator = creator', admin = admin', code = code', params = params'\<rparr>)))))"

definition MsgStoreCode_toAmino :: "MsgStoreCode \<Rightarrow> bool option \<Rightarrow> jsval" where
  "MsgStoreCode_toAmino this isClassic = JObject [
     ''type'' \<mapsto> JString ''jax/MsgStoreCode'',
     ''value'' \<mapsto> JObject [
        ''creator'' \<mapsto> creator this,
        ''admin'' \<mapsto> admin this,
        ''code'' \<mapsto> code this,
        ''params'' \<mapsto> params this]]"

definition MsgStoreCode_fromProto :: "jsval \<Rightarrow> bool option \<Rightarrow> error + MsgStoreCode" where
  "MsgStoreCode_fromProto proto isClassic =
     bindE (js_get proto ''creator'') (\<lambda>creator'.
     bindE (js_get proto ''admin'') (\<lambda>admin'.
     bindE (js_get proto ''code'') (\<lambda>code'.
     bindE (js_get proto ''params'') (\<lambda>params'.
       Inr \<lparr>creator = creator', admin = admin', code = code', params = params'\<rparr>))))"

definition MsgStoreCode_toProto :: "MsgStoreCode \<Rightarrow> bool option \<Rightarrow> jsval" where
  "MsgStoreCode_toProto this isClassic = MsgStoreCode_pb_fromPartial (JObject [
     ''creator'' \<mapsto> creator this,
     ''admin'' \<mapsto> admin this,
     ''code'' \<mapsto> code this,
     ''params'' \<mapsto> params this])"

definition MsgStoreCode_packAny :: "pb_codec \<Rightarrow> MsgStoreCode \<Rightarrow> bool option \<Rightarrow> jsval" where
  "MsgStoreCode_packAny MsgStoreCode_pb this isClassic = Any_fromPartial (JObject [
     ''typeUrl'' \<mapsto> JString ''/jax.MsgStoreCode'',
     ''value'' \<mapsto> JBytes (pb_encode MsgStoreCode_pb (MsgStoreCode_toProto this isClassic))])"

definition MsgStoreCode_unpackAny :: "pb_codec \<Rightarrow> jsval \<Rightarrow> bool option \<Rightarrow> error + MsgStoreCode" where
  "MsgStoreCode_unpackAny MsgStoreCode_pb msgAny isClassic =
     bindE (js_get msgAny ''value'') (\<lambda>bs.
     bindE (pb_decode MsgStoreCode_pb bs) (\<lambda>proto.
       MsgStoreCode_fromProto proto isClassic))"

definition MsgStoreCode_fromData :: "jsval \<Rightarrow> bool option \<Rightarrow> error + MsgStoreCode" where
  "MsgStoreCode_fromData data' isClassic =
     bindE (js_get data' ''creator'') (\<lambda>creator'.
     bindE (js_get data' ''admin'') (\<lambda>admin'.
     bindE (js_get data' ''code'') (\<lambda>code'.
     bindE (js_get data' ''params'') (\<lambda>params'.
       Inr \<lparr>creator = creator', admin = admin', code = code', params = params'\<rparr>))))"

definition MsgStoreCode_toData :: "MsgStoreCode \<Rightarrow> bool option \<Rightarrow> jsval" where
  "MsgStoreCode_toData this isClassic = JObject [
     ''@type'' \<mapsto> JString ''/jax.MsgStoreCode'',
     ''creator'' \<mapsto> creator this,
     ''admin'' \<mapsto> admin this,
     ''code'' \<mapsto> code this,
     ''params'' \<mapsto> params this]"

section \<open>MsgUpdateClient\<close>

record MsgUpdateClient =
  client_id :: jsval
  clientMessage :: jsval
  signer :: jsval

fun is_bytes :: "jsval \<Rightarrow> bool" where
  "is_bytes (JBytes b) = True"
| "is_bytes _ = False"

text \<open>An \<^verbatim>\<open>Any\<close> value: exactly a string \<^verbatim>\<open>typeUrl\<close> and a byte array \<^verbatim>\<open>value\<close>.\<close>

definition is_Any :: "jsval \<Rightarrow> bool" where
  "is_Any v =
     (is_string (js_prop v ''typeUrl'') \<and> is_bytes (js_prop v ''value'') \<and>
      v = JObject [''typeUrl'' \<mapsto> js_prop v ''typeUrl'', ''value'' \<mapsto> js_prop v ''value''])"

text \<open>
  The declared type of the fields: \<^verbatim>\<open>client_id: string\<close>,
  \<^verbatim>\<open>clientMessage: Any | undefined\<close>, \<^verbatim>\<open>signer: string\<close>.
\<close>

definition MsgUpdateClient_typed :: "MsgUpdateClient \<Rightarrow> bool" where
  "MsgUpdateClient_typed m =
     (is_string (client_id m) \<and> is_string (signer m) \<and>
      (clientMessage m = JUndefined \<or> is_Any (clientMessage m)))"

definition MsgUpdateClient_fromAmino :: "jsval \<Rightarrow> bool option \<Rightarrow> error + MsgUpdateClient" where
  "MsgUpdateClient_fromAmino x isClassic = Inl (Error ''Amino not supported'')"

definition MsgUpdateClient_toAmino :: "MsgUpdateClient \<Rightarrow> error + jsval" where
  "MsgUpdateClient_toAmino this = Inl (Error ''Amino not supported'')"

definition MsgUpdateClient_fromData :: "jsval \<Rightarrow> bool option \<Rightarrow> error + MsgUpdateClient" where
  "MsgUpdateClient_fromData data' isClassic =
     bindE (js_get data' ''client_id'') (\<lambda>client_id'.
     bindE (js_get data' ''clientMessage'') (\<lambda>clientMessage'.
     bindE (js_get data' ''signer'') (\<lambda>signer'.
       Inr \<lparr>client_id = client_id', clientMessage = clientMessage', signer = signer'\<rparr>)))"

definition MsgUpdateClient_toData :: "MsgUpdateClient \<Rightarrow> bool option \<Rightarrow> jsval" where
  "MsgUpdateClient_toData this isClassic = JObject [
     ''@type'' \<mapsto> JString ''/ibc.core.client.v1.MsgUpdateClient'',
     ''client_id'' \<mapsto> client_id this,
     ''clientMessage'' \<mapsto> clientMessage this,
     ''signer'' \<mapsto> signer this]"

definition MsgUpdateClient_fromProto :: "jsval \<Rightarrow> bool option \<Rightarrow> error + MsgUpdateClient" where
  "MsgUpdateClient_fromProto proto isClassic =
     bindE (js_get proto ''clientId'') (\<lambda>clientId.
     bindE (js_get proto ''clientMessage'') (\<lambda>clientMessage'.
     bindE (js_get proto ''signer'') (\<lambda>signer'.
       Inr \<lparr>client_id = clientId, clientMessage = clientMessage', signer = signer'\<rparr>)))"

definition MsgUpdateClient_toProto :: "MsgUpdateClient \<Rightarrow> bool option \<Rightarrow> jsval" where
  "MsgUpdateClient_toProto this isClassic = MsgUpdateClient_pb_fromPartial (JObject [
     ''clientId'' \<mapsto> client_id this,
     ''clientMessage'' \<mapsto> clientMessage this,
     ''signer'' \<mapsto> signer this])"

definition MsgUpdateClient_packAny :: "pb_codec \<Rightarrow> MsgUpdateClient \<Rightarrow> bool option \<Rightarrow> jsval" where
  "MsgUpdateClient_packAny MsgUpdateClient_pb this isClassic = Any_fromPartial (JObject [
     ''typeUrl'' \<mapsto> JString ''/ibc.core.client.v1.MsgUpdateClient'',
     ''value'' \<mapsto> JBytes (pb_encode MsgUpdateClient_pb (MsgUpdateClient_toProto this None))])"

definition MsgUpdateClient_unpackAny ::
  "pb_codec \<Rightarrow> jsval \<Rightarrow> bool option \<Rightarrow> error + MsgUpdateClient" where
  "MsgUpdateClient_unpackAny MsgUpdateClient_pb msgAny isClassic =
     bindE (js_get msgAny ''value'') (\<lambda>bs.
     bindE (pb_decode MsgUpdateClient_pb bs) (\<lambda>proto.
       MsgUpdateClient_fromProto proto None))"

section \<open>Buffers and text encodings\<close>

text \<open>
  \<^verbatim>\<open>Word32Array.toString()\<close> of jscrypto prints each byte as two lower-case hexadecimal
  digits; \<^verbatim>\<open>Buffer.from(text, 'hex')\<close> of Node reads two digits per byte, in either case,
  and stops at the first pair that is not hexadecimal.
\<close>

definition hex_digits :: string where
  "hex_digits = ''0123456789abcdef''"

fun toString_hex :: "bytes \<Rightarrow> string" where
  "toString_hex [] = []"
| "toString_hex (b # bs) =
     hex_digits ! (unat b div 16) # hex_digits ! (unat b mod 16) # toString_hex bs"

definition unhex :: "char \<Rightarrow> nat option" where
  "unhex c =
     (let n = (of_char c :: nat) in
      if 48 \<le> n \<and> n \<le> 57 then Some (n - 48)
      else if 97 \<le> n \<and> n \<le> 102 then Some (n - 87)
      else if 65 \<le> n \<and> n \<le> 70 then Some (n - 55)
      else None)"

fun Buffer_from_hex :: "string \<Rightarrow> bytes" where
  "Buffer_from_hex (c1 # c2 # cs) =
     (case unhex c1 of
        None \<Rightarrow> []
      | Some a \<Rightarrow>
          (case unhex c2 of
             None \<Rightarrow> []
           | Some b \<Rightarrow> word_of_nat (a * 16 + b) # Buffer_from_hex cs))"
| "Buffer_from_hex _ = []"

text \<open>\<^verbatim>\<open>buffer.toString('base64')\<close>: three bytes give four characters, padded with \<^verbatim>\<open>=\<close>.\<close>

definition base64_digits :: string where
  "base64_digits = ''ABCDEFGHIJKLMNOPQRSTUVWXYZabcdefghijklmnopqrstuvwxyz0123456789+/''"

fun toString_base64 :: "bytes \<Rightarrow> string" where
  "toString_base64 [] = []"
| "toString_base64 [a] =
     (let n = unat a * 16 in
      [base64_digits ! (n div 64), base64_digits ! (n mod 64), CHR ''='', CHR ''=''])"
| "toString_base64 [a, b] =
     (let n = unat a * 1024 + unat b * 4 in
      [base64_digits ! (n div 4096), base64_digits ! (n div 64 mod 64),
       base64_digits ! (n mod 64), CHR ''=''])"
| "toString_base64 (a # b # c # bs) =
     (let n = unat a * 65536 + unat b * 256 + unat c in
      [base64_digits ! (n div 262144), base64_digits ! (n div 4096 mod 64),
       base64_digits ! (n div 64 mod 64), base64_digits ! (n mod 64)] @ toString_base64 bs)"

section \<open>RawKey\<close>

text \<open>
  The cryptographic routines are those of the packages \<^verbatim>\<open>secp256k1\<close>, \<^verbatim>\<open>jscrypto\<close>
  and \<^verbatim>\<open>keccak256\<close>, parameters of the model. \<^verbatim>\<open>SHA256_hash\<close> stands for
  \<^verbatim>\<open>SHA256.hash(new Word32Array(payload))\<close>, the digest as the bytes of the word array.
  \<^verbatim>\<open>secp256k1.ecdsaSign(message, privateKey)\<close> is called with no options, that is with
  the library's default nonce function (RFC 6979), and so is a function of its two
  arguments; it throws on a message or a key it refuses.
\<close>

record ecdsa_signature =
  signature :: bytes
  recid :: nat

record crypto =
  secp256k1_publicKeyCreate :: "bytes \<Rightarrow> bool \<Rightarrow> error + bytes"
  secp256k1_ecdsaSign :: "bytes \<Rightarrow> bytes \<Rightarrow> error + ecdsa_signature"
  SHA256_hash :: "bytes \<Rightarrow> bytes"
  keccak256 :: "bytes \<Rightarrow> bytes"

text \<open>
  Modelled from the spec: the classes \<^verbatim>\<open>SimplePublicKey\<close> and \<^verbatim>\<open>InjectivePubKey\<close> of
  \<^verbatim>\<open>src/core/PublicKey.ts\<close> are not among the sources. A public key is its compressed
  point, stored as base64 text, and its variant tag (Standard or EvmStyle).
\<close>

datatype PublicKey = SimplePublicKey string | InjectivePubKey string

record RawKey =
  publicKey :: PublicKey
  privateKey :: bytes
  isInjective :: "bool option"

text \<open>The optional flag \<^verbatim>\<open>isInjective?: boolean\<close> in a condition.\<close>

fun truthy :: "bool option \<Rightarrow> bool" where
  "truthy (Some True) = True"
| "truthy _ = False"

definition RawKey_new :: "crypto \<Rightarrow> bytes \<Rightarrow> bool option \<Rightarrow> error + RawKey" where
  "RawKey_new lib privateKey' isInjective' =
     bindE (secp256k1_publicKeyCreate lib privateKey' True) (\<lambda>publicKey'.
       Inr \<lparr>publicKey =
              (if truthy isInjective'
               then InjectivePubKey (toString_base64 publicKey')
               else SimplePublicKey (toString_base64 publicKey')),
            privateKey = privateKey',
            isInjective = isInjective'\<rparr>)"

definition RawKey_ecdsaSign :: "crypto \<Rightarrow> RawKey \<Rightarrow> bytes \<Rightarrow> error + ecdsa_signature" where
  "RawKey_ecdsaSign lib this payload =
     (let hash = Buffer_from_hex (toString_hex (SHA256_hash lib payload))
      in secp256k1_ecdsaSign lib hash (privateKey this))"

definition RawKey_etherSign :: "crypto \<Rightarrow> RawKey \<Rightarrow> bytes \<Rightarrow> error + ecdsa_signature" where
  "RawKey_etherSign lib this payload =
     (let hash = keccak256 lib payload
      in secp256k1_ecdsaSign lib hash (privateKey this))"

text \<open>
  \<^verbatim>\<open>sign\<close> is \<^verbatim>\<open>async\<close>: \<^verbatim>\<open>Inr\<close> is the value the promise resolves to, \<^verbatim>\<open>Inl\<close> the
  error it rejects with.
\<close>

definition RawKey_sign :: "crypto \<Rightarrow> RawKey \<Rightarrow> bytes \<Rightarrow> error + bytes" where
  "RawKey_sign lib this payload =
     bindE (if truthy (isInjective this)
            then RawKey_etherSign lib this payload
            else RawKey_ecdsaSign lib this payload) (\<lambda>r.
       Inr (signature r))"

section \<open>Randomness\<close>

text \<open>
  A call of \<^verbatim>\<open>sign\<close> runs in a process that can draw fresh random bytes; the entropy
  of a call is what the process hands out during it. The signing routine of the library
  is \<^verbatim>\<open>secp256k1.ecdsaSign(message, privateKey, options)\<close>: it takes its nonce from
  \<^verbatim>\<open>options.noncefn\<close>, and from the library's default nonce function when the caller
  gives none. \<^verbatim>\<open>RawKey\<close> calls it with two arguments, so with no options:
  \<^verbatim>\<open>crypto_in_call\<close> is the library as one call of \<^verbatim>\<open>sign\<close> finds it. That the
  default nonce function derives the nonce from the message and the key (RFC 6979), and
  draws nothing, is a promise of the library, \<^verbatim>\<open>default_nonce_deterministic\<close>.
\<close>

type_synonym entropy = "nat \<Rightarrow> 8 word"

record ecdsa_options =
  noncefn :: "(bytes \<Rightarrow> bytes \<Rightarrow> bytes option \<Rightarrow> nat \<Rightarrow> bytes) option"
  data :: "bytes option"

type_synonym ecdsaSign_api =
  "entropy \<Rightarrow> bytes \<Rightarrow> bytes \<Rightarrow> ecdsa_options option \<Rightarrow> error + ecdsa_signature"

definition crypto_in_call :: "crypto \<Rightarrow> ecdsaSign_api \<Rightarrow> entropy \<Rightarrow> crypto" where
  "crypto_in_call lib ecdsaSign e =
     lib\<lparr>secp256k1_ecdsaSign := \<lambda>message privateKey'. ecdsaSign e message privateKey' None\<rparr>"

definition default_nonce_deterministic :: "ecdsaSign_api \<Rightarrow> bool" where
  "default_nonce_deterministic ecdsaSign =
     (\<forall>e e' message privateKey'.
        ecdsaSign e message privateKey' None = ecdsaSign e' message privateKey' None)"

section \<open>A codec in the protobuf wire format\<close>

text \<open>
  An instance of the codec parameter, to run the model on concrete messages: the proto3
  wire format as the generated \<^verbatim>\<open>encode\<close> and \<^verbatim>\<open>decode\<close> write and read it. A field
  that holds its default is not written; the reader starts from the default message,
  assigns each length-delimited field it knows and skips the others. Strings are their
  UTF-8 bytes. The fields of \<^verbatim>\<open>MsgStoreCode\<close> are numbered 1 to 4 in the order of
  their declaration, those of \<^verbatim>\<open>MsgUpdateClient\<close> and \<^verbatim>\<open>Any\<close> as in
  \<^verbatim>\<open>ibc/core/client/v1/tx.proto\<close> and \<^verbatim>\<open>google/protobuf/any.proto\<close>. Groups are
  not read.
\<close>

definition utf8 :: "string \<Rightarrow> bytes" where
  "utf8 s = map (\<lambda>c. word_of_nat (of_char c)) s"

definition utf8_decode :: "bytes \<Rightarrow> string" where
  "utf8_decode bs = map (\<lambda>b. char_of (unat b)) bs"

function varint :: "nat \<Rightarrow> bytes" where
  "varint n = (if n < 128 then [word_of_nat n] else word_of_nat (128 + n mod 128) # varint (n div 128))"
  by pat_completeness auto
termination
  by (relation "measure id") auto

declare varint.simps [simp del]

fun read_varint :: "bytes \<Rightarrow> (nat \<times> bytes) option" where
  "read_varint [] = None"
| "read_varint (b # bs) =
     (if unat b < 128 then Some (unat b, bs)
      else (case read_varint bs of
              None \<Rightarrow> None
            | Some (n, rest) \<Rightarrow> Some (unat b - 128 + 128 * n, rest)))"

lemma read_varint_shorter: "read_varint bs = Some (n, rest) \<Longrightarrow> length rest < length bs"
  by (induction bs arbitrary: n rest) (auto split: if_splits option.splits)

definition write_bytes :: "nat \<Rightarrow> bytes \<Rightarrow> bytes" where
  "write_bytes tag b = varint tag @ varint (length b) @ b"

definition write_string :: "nat \<Rightarrow> jsval \<Rightarrow> bytes" where
  "write_string tag v =
     (case v of JString s \<Rightarrow> if s \<noteq> [] then write_bytes tag (utf8 s) else [] | _ \<Rightarrow> [])"

type_synonym pb_message = "string \<Rightarrow> jsval option"
type_synonym pb_field = "nat \<Rightarrow> bytes \<Rightarrow> pb_message \<Rightarrow> error + pb_message"

function (sequential) pb_read :: "pb_field \<Rightarrow> bytes \<Rightarrow> pb_message \<Rightarrow> error + pb_message" where
  "pb_read field [] message = Inr message"
| "pb_read field (b # bs) message =
     (case read_varint (b # bs) of
        None \<Rightarrow> Inl (RangeError ''index out of range'')
      | Some (tag, r1) \<Rightarrow>
          if tag mod 8 = 2 then
            (case read_varint r1 of
               None \<Rightarrow> Inl (RangeError ''index out of range'')
             | Some (len, r2) \<Rightarrow>
                 if length r2 < len then Inl (RangeError ''index out of range'')
                 else (case field (tag div 8) (take len r2) message of
                         Inl e \<Rightarrow> Inl e
                       | Inr message' \<Rightarrow> pb_read field (drop len r2) message'))
          else if tag mod 8 = 0 then
            (case read_varint r1 of
               None \<Rightarrow> Inl (RangeError ''index out of range'')
             | Some (n, r2) \<Rightarrow> pb_read field r2 message)
          else if tag mod 8 = 1 then
            (if length r1 < 8 then Inl (RangeError ''index out of range'')
             else pb_read field (drop 8 r1) message)
          else if tag mod 8 = 5 then
            (if length r1 < 4 then Inl (RangeError ''index out of range'')
             else pb_read field (drop 4 r1) message)
          else Inl (Error ''invalid wire type''))"
  by pat_completeness auto
termination
proof (relation "measure (\<lambda>(field, bs, message). length bs)", goal_cases)
  case 1
  show ?case by simp
next
  case (2 field b bs message x2 tag r1 x2a len r2 message')
  then show ?case
    using read_varint_shorter [of "b # bs" tag r1] read_varint_shorter [of r1 len r2] by simp
next
  case (3 field b bs message x2 tag r1 x2a n r2)
  then show ?case
    using read_varint_shorter [of "b # bs" tag r1] read_varint_shorter [of r1 n r2] by simp
next
  case (4 field b bs message x2 tag r1)
  then show ?case using read_varint_shorter [of "b # bs" tag r1] by simp
next
  case (5 field b bs message x2 tag r1)
  then show ?case using read_varint_shorter [of "b # bs" tag r1] by simp
qed

definition Any_field :: pb_field where
  "Any_field n b message =
     Inr (if n = 1 then message(''typeUrl'' \<mapsto> JString (utf8_decode b))
          else if n = 2 then message(''value'' \<mapsto> JBytes b)
          else message)"

definition Any_encode :: "jsval \<Rightarrow> bytes" where
  "Any_encode message =
     write_string 10 (js_prop message ''typeUrl'') @
     (case js_prop message ''value'' of
        JBytes b \<Rightarrow> if b \<noteq> [] then write_bytes 18 b else []
      | _ \<Rightarrow> [])"

definition Any_decode :: "bytes \<Rightarrow> error + jsval" where
  "Any_decode bs =
     bindE (pb_read Any_field bs [''typeUrl'' \<mapsto> JString '''', ''value'' \<mapsto> JBytes []])
       (\<lambda>message. Inr (JObject message))"

definition MsgStoreCode_pb_field :: pb_field where
  "MsgStoreCode_pb_field n b message =
     Inr (if n = 1 then message(''creator'' \<mapsto> JString (utf8_decode b))
          else if n = 2 then message(''admin'' \<mapsto> JString (utf8_decode b))
          else if n = 3 then message(''code'' \<mapsto> JString (utf8_decode b))
          else if n = 4 then message(''params'' \<mapsto> JString (utf8_decode b))
          else message)"

definition MsgStoreCode_pb_encode :: "jsval \<Rightarrow> bytes" where
  "MsgStoreCode_pb_encode message =
     write_string 10 (js_prop message ''creator'') @
     write_string 18 (js_prop message ''admin'') @
     write_string 26 (js_prop message ''code'') @
     write_string 34 (js_prop message ''params'')"

definition MsgStoreCode_pb_decode :: "jsval \<Rightarrow> error + jsval" where
  "MsgStoreCode_pb_decode input =
     (case input of
        JBytes bs \<Rightarrow>
          bindE (pb_read MsgStoreCode_pb_field bs
                   [''creator'' \<mapsto> JString '''', ''admin'' \<mapsto> JString '''',
                    ''code'' \<mapsto> JString '''', ''params'' \<mapsto> JString ''''])
            (\<lambda>message. Inr (JObject message))
      | _ \<Rightarrow> Inl TypeError)"

definition MsgUpdateClient_pb_field :: pb_field where
  "MsgUpdateClient_pb_field n b message =
     (if n = 1 then Inr (message(''clientId'' \<mapsto> JString (utf8_decode b)))
      else if n = 2 then
        bindE (Any_decode b) (\<lambda>any. Inr (message(''clientMessage'' \<mapsto> any)))
      else if n = 3 then Inr (message(''signer'' \<mapsto> JString (utf8_decode b)))
      else Inr message)"

definition MsgUpdateClient_pb_encode :: "jsval \<Rightarrow> bytes" where
  "MsgUpdateClient_pb_encode message =
     write_string 10 (js_prop message ''clientId'') @
     (case js_prop message ''clientMessage'' of
        JUndefined \<Rightarrow> []
      | _ \<Rightarrow> write_bytes 18 (Any_encode (js_prop message ''clientMessage''))) @
     write_string 26 (js_prop message ''signer'')"

definition MsgUpdateClient_pb_decode :: "jsval \<Rightarrow> error + jsval" where
  "MsgUpdateClient_pb_decode input =
     (case input of
        JBytes bs \<Rightarrow>
          bindE (pb_read MsgUpdateClient_pb_field bs
                   [''clientId'' \<mapsto> JString '''', ''clientMessage'' \<mapsto> JUndefined,
                    ''signer'' \<mapsto> JString ''''])
            (\<lambda>message. Inr (JObject message))
      | _ \<Rightarrow> Inl TypeError)"

definition MsgStoreCode_pb_wire :: pb_codec where
  "MsgStoreCode_pb_wire = \<lparr>pb_encode = MsgStoreCode_pb_encode, pb_decode = MsgStoreCode_pb_decode\<rparr>"

definition MsgUpdateClient_pb_wire :: pb_codec where
  "MsgUpdateClient_pb_wire =
     \<lparr>pb_encode = MsgUpdateClient_pb_encode, pb_decode = MsgUpdateClient_pb_decode\<rparr>"

section \<open>Concrete inputs\<close>

text \<open>
  A stand-in for the cryptographic libraries, with their interface and sizes, to run the
  model on concrete keys and payloads. It is not a cryptographic implementation; the
  theorems below hold for every value of the parameter.
\<close>

definition toy_crypto :: crypto where
  "toy_crypto =
     \<lparr>secp256k1_publicKeyCreate =
        (\<lambda>k compressed.
           if length k = 32 then Inr (2 # k)
           else Inl (Error ''Expected private key to be an Uint8Array with length 32'')),
      secp256k1_ecdsaSign =
        (\<lambda>msg k.
           if length msg = 32 \<and> length k = 32 then Inr \<lparr>signature = msg @ k, recid = 0\<rparr>
           else Inl (Error ''Expected message to be an Uint8Array with length 32'')),
      SHA256_hash = (\<lambda>p. take 32 (p @ replicate 32 0)),
      keccak256 = (\<lambda>p. take 32 (rev p @ replicate 32 255))\<rparr>"

text \<open>
  Two stand-ins for the signing routine with its options: one whose default nonce is
  derived from the message, and one that draws its nonce from the entropy of the call.
\<close>

definition toy_ecdsaSign :: ecdsaSign_api where
  "toy_ecdsaSign e message privateKey' options =
     (if length message = 32 \<and> length privateKey' = 32 then
        (case options of
           None \<Rightarrow> Inr \<lparr>signature = message @ privateKey', recid = 0\<rparr>
         | Some opts \<Rightarrow>
             (case noncefn opts of
                None \<Rightarrow> Inr \<lparr>signature = message @ privateKey', recid = 0\<rparr>
              | Some f \<Rightarrow>
                  Inr \<lparr>signature = take 32 (f message privateKey' (data opts) 0 @ replicate 32 0)
                                      @ privateKey',
                       recid = 0\<rparr>))
      else Inl (Error ''Expected message to be an Uint8Array with length 32''))"

definition random_ecdsaSign :: ecdsaSign_api where
  "random_ecdsaSign e message privateKey' options =
     Inr \<lparr>signature = map e [0..<32] @ privateKey', recid = 0\<rparr>"

text \<open>
  What the libraries promise and \<^verbatim>\<open>RawKey\<close> relies on: both digests are 32 bytes
  long; \<^verbatim>\<open>ecdsaSign\<close> signs every 32-byte message under a private key that
  \<^verbatim>\<open>publicKeyCreate\<close> accepts; a signature is 64 bytes long.
\<close>

definition crypto_contract :: "crypto \<Rightarrow> bool" where
  "crypto_contract lib =
     ((\<forall>p. length (SHA256_hash lib p) = 32) \<and>
      (\<forall>p. length (keccak256 lib p) = 32) \<and>
      (\<forall>k pk msg. secp256k1_publicKeyCreate lib k True = Inr pk \<and> length msg = 32
           \<longrightarrow> (\<exists>r. secp256k1_ecdsaSign lib msg k = Inr r)) \<and>
      (\<forall>msg k r. secp256k1_ecdsaSign lib msg k = Inr r \<longrightarrow> length (signature r) = 64))"

text \<open>The message of the concrete scenario, and an update with a packed header.\<close>

definition example_MsgStoreCode :: MsgStoreCode where
  "example_MsgStoreCode =
     \<lparr>creator = JString ''acc1...'', admin = JString ''acc1...'',
      code = JString ''contract-source'', params = JString ''{}''\<rparr>"

definition example_MsgUpdateClient :: MsgUpdateClient where
  "example_MsgUpdateClient =
     \<lparr>client_id = JString ''07-tendermint-0'',
      clientMessage = JObject [
        ''typeUrl'' \<mapsto> JString ''/ibc.lightclients.tendermint.v1.Header'',
        ''value'' \<mapsto> JBytes [10, 2, 8, 1]],
      signer = JString ''acc1...''\<rparr>"

text \<open>A private key of the right length for the stand-in.\<close>

definition example_secret :: bytes where
  "example_secret = replicate 32 7"

section \<open>Shapes and round trips\<close>

lemma is_string_not_nullish: "is_string v \<Longrightarrow> \<not> nullish v"
  by (cases v) simp_all

lemma is_bytes_not_nullish: "is_bytes v \<Longrightarrow> \<not> nullish v"
  by (cases v) simp_all

lemma coalesce_string: "is_string v \<Longrightarrow> nullish_coalesce v d = v"
  by (simp add: nullish_coalesce_def is_string_not_nullish)

lemma coalesce_bytes: "is_bytes v \<Longrightarrow> nullish_coalesce v d = v"
  by (simp add: nullish_coalesce_def is_bytes_not_nullish)

lemma Any_fromPartial_Any: "is_Any a \<Longrightarrow> Any_fromPartial a = a"
  unfolding is_Any_def Any_fromPartial_def
  by (simp add: coalesce_string coalesce_bytes)

lemma is_Any_not_nullish: "is_Any a \<Longrightarrow> \<not> nullish a"
  by (cases a) (simp_all add: is_Any_def)

lemma MsgStoreCode_amino_roundtrip:
  "MsgStoreCode_fromAmino (MsgStoreCode_toAmino m c) c' = Inr m"
  by (simp add: MsgStoreCode_fromAmino_def MsgStoreCode_toAmino_def js_get_def bindE_def)

lemma MsgStoreCode_data_roundtrip:
  "MsgStoreCode_fromData (MsgStoreCode_toData m c) c' = Inr m"
  by (simp add: MsgStoreCode_fromData_def MsgStoreCode_toData_def js_get_def bindE_def)

lemma MsgStoreCode_toProto_typed:
  "MsgStoreCode_typed m \<Longrightarrow>
   MsgStoreCode_toProto m c = JObject [''creator'' \<mapsto> creator m, ''admin'' \<mapsto> admin m,
      ''code'' \<mapsto> code m, ''params'' \<mapsto> params m]"
  by (simp add: MsgStoreCode_typed_def MsgStoreCode_toProto_def MsgStoreCode_pb_fromPartial_def
      coalesce_string)

lemma MsgStoreCode_proto_roundtrip:
  "MsgStoreCode_typed m \<Longrightarrow> MsgStoreCode_fromProto (MsgStoreCode_toProto m c) c' = Inr m"
  by (simp add: MsgStoreCode_toProto_typed MsgStoreCode_fromProto_def js_get_def bindE_def)

lemma MsgUpdateClient_data_roundtrip:
  "MsgUpdateClient_fromData (MsgUpdateClient_toData u c) c' = Inr u"
  by (simp add: MsgUpdateClient_fromData_def MsgUpdateClient_toData_def js_get_def bindE_def)

lemma MsgUpdateClient_toProto_typed:
  "MsgUpdateClient_typed u \<Longrightarrow>
   MsgUpdateClient_toProto u c = JObject [''clientId'' \<mapsto> client_id u,
      ''clientMessage'' \<mapsto> clientMessage u, ''signer'' \<mapsto> signer u]"
  by (auto simp: MsgUpdateClient_typed_def MsgUpdateClient_toProto_def
      MsgUpdateClient_pb_fromPartial_def coalesce_string Any_fromPartial_Any is_Any_not_nullish)

lemma MsgUpdateClient_proto_roundtrip:
  "MsgUpdateClient_typed u \<Longrightarrow> MsgUpdateClient_fromProto (MsgUpdateClient_toProto u c) c' = Inr u"
  by (simp add: MsgUpdateClient_toProto_typed MsgUpdateClient_fromProto_def js_get_def bindE_def)

lemma example_MsgStoreCode_typed: "MsgStoreCode_typed example_MsgStoreCode"
  by (simp add: MsgStoreCode_typed_def example_MsgStoreCode_def)

lemma example_MsgUpdateClient_typed: "MsgUpdateClient_typed example_MsgUpdateClient"
  by (simp add: MsgUpdateClient_typed_def example_MsgUpdateClient_def is_Any_def)

lemma MsgStoreCode_packAny_envelope:
  "MsgStoreCode_packAny codec m ic = JObject [
     ''typeUrl'' \<mapsto> JString ''/jax.MsgStoreCode'',
     ''value'' \<mapsto> JBytes (pb_encode codec (MsgStoreCode_toProto m ic))]"
  by (simp add: MsgStoreCode_packAny_def Any_fromPartial_def nullish_coalesce_def)

lemma MsgUpdateClient_packAny_envelope:
  "MsgUpdateClient_packAny codec u ic = JObject [
     ''typeUrl'' \<mapsto> JString ''/ibc.core.client.v1.MsgUpdateClient'',
     ''value'' \<mapsto> JBytes (pb_encode codec (MsgUpdateClient_toProto u None))]"
  by (simp add: MsgUpdateClient_packAny_def Any_fromPartial_def nullish_coalesce_def)

lemma MsgStoreCode_unpackAny_value:
  "MsgStoreCode_unpackAny codec (JObject [''typeUrl'' \<mapsto> t, ''value'' \<mapsto> v]) ic =
     bindE (pb_decode codec v) (\<lambda>proto. MsgStoreCode_fromProto proto ic)"
  by (simp add: MsgStoreCode_unpackAny_def js_get_def bindE_def)

lemma MsgUpdateClient_unpackAny_value:
  "MsgUpdateClient_unpackAny codec (JObject [''typeUrl'' \<mapsto> t, ''value'' \<mapsto> v]) ic =
     bindE (pb_decode codec v) (\<lambda>proto. MsgUpdateClient_fromProto proto None)"
  by (simp add: MsgUpdateClient_unpackAny_def js_get_def bindE_def)

lemma MsgStoreCode_unpackAny_cases:
  "MsgStoreCode_unpackAny codec a ic =
     (if nullish a then Inl TypeError
      else (case pb_decode codec (js_prop a ''value'') of
              Inl e \<Rightarrow> Inl e
            | Inr proto \<Rightarrow>
                if nullish proto then Inl TypeError
                else Inr \<lparr>creator = js_prop proto ''creator'', admin = js_prop proto ''admin'',
                          code = js_prop proto ''code'', params = js_prop proto ''params''\<rparr>))"
  by (simp add: MsgStoreCode_unpackAny_def MsgStoreCode_fromProto_def js_get_def bindE_def
      split: sum.splits)

lemma MsgUpdateClient_unpackAny_cases:
  "MsgUpdateClient_unpackAny codec a ic =
     (if nullish a then Inl TypeError
      else (case pb_decode codec (js_prop a ''value'') of
              Inl e \<Rightarrow> Inl e
            | Inr proto \<Rightarrow>
                if nullish proto then Inl TypeError
                else Inr \<lparr>client_id = js_prop proto ''clientId'',
                          clientMessage = js_prop proto ''clientMessage'',
                          signer = js_prop proto ''signer''\<rparr>))"
  by (simp add: MsgUpdateClient_unpackAny_def MsgUpdateClient_fromProto_def js_get_def bindE_def
      split: sum.splits)

section \<open>The wire-format codec reads back what it writes\<close>

lemma read_varint_varint: "read_varint (varint n @ rest) = Some (n, rest)"
proof (induction n rule: varint.induct)
  case (1 n)
  show ?case
  proof (cases "n < 128")
    case True
    then have "unat (word_of_nat n :: 8 word) = n"
      by (simp add: unat_of_nat)
    with True show ?thesis
      by (simp add: varint.simps)
  next
    case False
    have "128 + n mod 128 < 256" by simp
    then have u: "unat (word_of_nat (128 + n mod 128) :: 8 word) = 128 + n mod 128"
      by (simp add: unat_of_nat del: of_nat_add)
    from False have v: "varint n = word_of_nat (128 + n mod 128) # varint (n div 128)"
      by (subst varint.simps) simp
    show ?thesis
      using 1 [OF False] by (simp add: v u del: of_nat_add)
  qed
qed

lemma varint_not_Nil: "varint n \<noteq> []"
  by (subst varint.simps) simp

lemma pb_read_nonempty:
  "bs \<noteq> [] \<Longrightarrow> pb_read field bs message =
     (case read_varint bs of
        None \<Rightarrow> Inl (RangeError ''index out of range'')
      | Some (tag, r1) \<Rightarrow>
          if tag mod 8 = 2 then
            (case read_varint r1 of
               None \<Rightarrow> Inl (RangeError ''index out of range'')
             | Some (len, r2) \<Rightarrow>
                 if length r2 < len then Inl (RangeError ''index out of range'')
                 else (case field (tag div 8) (take len r2) message of
                         Inl e \<Rightarrow> Inl e
                       | Inr message' \<Rightarrow> pb_read field (drop len r2) message'))
          else if tag mod 8 = 0 then
            (case read_varint r1 of
               None \<Rightarrow> Inl (RangeError ''index out of range'')
             | Some (n, r2) \<Rightarrow> pb_read field r2 message)
          else if tag mod 8 = 1 then
            (if length r1 < 8 then Inl (RangeError ''index out of range'')
             else pb_read field (drop 8 r1) message)
          else if tag mod 8 = 5 then
            (if length r1 < 4 then Inl (RangeError ''index out of range'')
             else pb_read field (drop 4 r1) message)
          else Inl (Error ''invalid wire type''))"
  by (cases bs) simp_all

lemma pb_read_write_bytes:
  assumes "tag mod 8 = 2"
  shows "pb_read field (write_bytes tag b @ rest) message =
     (case field (tag div 8) b message of
        Inl e \<Rightarrow> Inl e
      | Inr message' \<Rightarrow> pb_read field rest message')"
proof -
  have ne: "write_bytes tag b @ rest \<noteq> []"
    by (simp add: write_bytes_def varint_not_Nil)
  have r1: "read_varint (write_bytes tag b @ rest) = Some (tag, varint (length b) @ b @ rest)"
    by (simp add: write_bytes_def read_varint_varint)
  have r2: "read_varint (varint (length b) @ b @ rest) = Some (length b, b @ rest)"
    by (rule read_varint_varint)
  show ?thesis
    by (subst pb_read_nonempty [OF ne]) (simp add: r1 r2 assms split: sum.splits)
qed

lemma pb_read_write_bytes_last:
  assumes "tag mod 8 = 2"
  shows "pb_read field (write_bytes tag b) message =
     (case field (tag div 8) b message of
        Inl e \<Rightarrow> Inl e
      | Inr message' \<Rightarrow> Inr message')"
  using pb_read_write_bytes [OF assms, of field b "[]" message]
  by (simp split: sum.splits)

lemma utf8_decode_utf8: "utf8_decode (utf8 s) = s"
  by (induction s) (simp_all add: utf8_def utf8_decode_def unat_of_nat)

lemma utf8_Nil_iff: "utf8 s = [] \<longleftrightarrow> s = []"
  by (simp add: utf8_def)

lemma MsgStoreCode_pb_wire_roundtrip:
  assumes "MsgStoreCode_typed m"
  shows "pb_decode MsgStoreCode_pb_wire
           (JBytes (pb_encode MsgStoreCode_pb_wire (MsgStoreCode_toProto m ic)))
         = Inr (MsgStoreCode_toProto m ic)"
proof -
  from assms obtain s1 s2 s3 s4 where
    f: "creator m = JString s1" "admin m = JString s2" "code m = JString s3" "params m = JString s4"
    unfolding MsgStoreCode_typed_def
    by (metis is_string.elims(2))
  have p: "MsgStoreCode_toProto m ic = JObject [''creator'' \<mapsto> JString s1,
      ''admin'' \<mapsto> JString s2, ''code'' \<mapsto> JString s3, ''params'' \<mapsto> JString s4]"
    using MsgStoreCode_toProto_typed [OF assms] f by simp
  show ?thesis
    unfolding p
    by (simp add: MsgStoreCode_pb_wire_def MsgStoreCode_pb_encode_def MsgStoreCode_pb_decode_def
        write_string_def pb_read_write_bytes pb_read_write_bytes_last MsgStoreCode_pb_field_def utf8_decode_utf8
        bindE_def fun_eq_iff)
qed

lemma is_Any_cases:
  assumes "is_Any a"
  obtains t b where "a = JObject [''typeUrl'' \<mapsto> JString t, ''value'' \<mapsto> JBytes b]"
proof -
  from assms obtain t where t: "js_prop a ''typeUrl'' = JString t"
    unfolding is_Any_def by (metis is_string.elims(2))
  from assms obtain b where b: "js_prop a ''value'' = JBytes b"
    unfolding is_Any_def by (metis is_bytes.elims(2))
  from assms have "a = JObject [''typeUrl'' \<mapsto> js_prop a ''typeUrl'',
      ''value'' \<mapsto> js_prop a ''value'']"
    unfolding is_Any_def by blast
  with t b have "a = JObject [''typeUrl'' \<mapsto> JString t, ''value'' \<mapsto> JBytes b]"
    by simp
  then show ?thesis by (rule that)
qed

lemma Any_wire_roundtrip:
  "Any_decode (Any_encode (JObject [''typeUrl'' \<mapsto> JString t, ''value'' \<mapsto> JBytes b]))
     = Inr (JObject [''typeUrl'' \<mapsto> JString t, ''value'' \<mapsto> JBytes b])"
  by (simp add: Any_decode_def Any_encode_def write_string_def pb_read_write_bytes
      pb_read_write_bytes_last Any_field_def utf8_decode_utf8 bindE_def fun_eq_iff)

lemma MsgUpdateClient_pb_wire_roundtrip:
  assumes "MsgUpdateClient_typed u"
  shows "pb_decode MsgUpdateClient_pb_wire
           (JBytes (pb_encode MsgUpdateClient_pb_wire (MsgUpdateClient_toProto u ic)))
         = Inr (MsgUpdateClient_toProto u ic)"
proof -
  from assms obtain s1 s3 where
    f: "client_id u = JString s1" "signer u = JString s3"
    unfolding MsgUpdateClient_typed_def
    by (metis is_string.elims(2))
  have p: "MsgUpdateClient_toProto u ic = JObject [''clientId'' \<mapsto> JString s1,
      ''clientMessage'' \<mapsto> clientMessage u, ''signer'' \<mapsto> JString s3]"
    using MsgUpdateClient_toProto_typed [OF assms] f by simp
  from assms consider "clientMessage u = JUndefined" | "is_Any (clientMessage u)"
    unfolding MsgUpdateClient_typed_def by blast
  then show ?thesis
  proof cases
    case 1
    show ?thesis
      unfolding p 1
      by (simp add: MsgUpdateClient_pb_wire_def MsgUpdateClient_pb_encode_def
          MsgUpdateClient_pb_decode_def write_string_def pb_read_write_bytes
          pb_read_write_bytes_last MsgUpdateClient_pb_field_def utf8_decode_utf8
          bindE_def fun_eq_iff)
  next
    case 2
    then obtain t b where
      a: "clientMessage u = JObject [''typeUrl'' \<mapsto> JString t, ''value'' \<mapsto> JBytes b]"
      by (rule is_Any_cases)
    show ?thesis
      unfolding p a
      by (simp add: MsgUpdateClient_pb_wire_def MsgUpdateClient_pb_encode_def
          MsgUpdateClient_pb_decode_def write_string_def pb_read_write_bytes
          pb_read_write_bytes_last MsgUpdateClient_pb_field_def utf8_decode_utf8
          Any_wire_roundtrip bindE_def fun_eq_iff)
  qed
qed

lemma wire_MsgStoreCode_example:
  "pb_decode MsgStoreCode_pb_wire
     (JBytes (pb_encode MsgStoreCode_pb_wire (MsgStoreCode_toProto example_MsgStoreCode None)))
   = Inr (MsgStoreCode_toProto example_MsgStoreCode None)"
  by (rule MsgStoreCode_pb_wire_roundtrip [OF example_MsgStoreCode_typed])

lemma wire_MsgUpdateClient_example:
  "pb_decode MsgUpdateClient_pb_wire
     (JBytes (pb_encode MsgUpdateClient_pb_wire
        (MsgUpdateClient_toProto example_MsgUpdateClient None)))
   = Inr (MsgUpdateClient_toProto example_MsgUpdateClient None)"
  by (rule MsgUpdateClient_pb_wire_roundtrip [OF example_MsgUpdateClient_typed])

section \<open>Hexadecimal text and signing\<close>

lemma unhex_hex_digits_all: "\<forall>n \<in> set [0..<16]. unhex (hex_digits ! n) = Some n"
  by (simp add: upt_rec unhex_def hex_digits_def)

lemma unhex_hex_digits: "n < 16 \<Longrightarrow> unhex (hex_digits ! n) = Some n"
  using unhex_hex_digits_all by simp

lemma unat_byte_div16: "unat (b :: 8 word) div 16 < 16"
proof -
  have "unat b < 256" using unsigned_less [of b] by simp
  then show ?thesis by simp
qed

lemma Buffer_from_hex_toString_hex: "Buffer_from_hex (toString_hex bs) = bs"
  by (induction bs) (simp_all add: unhex_hex_digits unat_byte_div16)

lemma RawKey_new_fields:
  "RawKey_new lib sk flag = Inr k \<Longrightarrow> privateKey k = sk \<and> isInjective k = flag"
  by (auto simp: RawKey_new_def bindE_def split: sum.splits)

lemma RawKey_sign_unfold:
  "RawKey_sign lib k payload =
     bindE (secp256k1_ecdsaSign lib
              (if truthy (isInjective k) then keccak256 lib payload else SHA256_hash lib payload)
              (privateKey k))
       (\<lambda>r. Inr (signature r))"
  by (simp add: RawKey_sign_def RawKey_etherSign_def RawKey_ecdsaSign_def
      Buffer_from_hex_toString_hex)

lemma example_key_standard:
  "RawKey_new toy_crypto example_secret None =
     Inr \<lparr>publicKey = SimplePublicKey (toString_base64 (2 # example_secret)),
          privateKey = example_secret, isInjective = None\<rparr>"
  by (simp add: RawKey_new_def toy_crypto_def example_secret_def bindE_def)

lemma example_key_injective:
  "RawKey_new toy_crypto example_secret (Some True) =
     Inr \<lparr>publicKey = InjectivePubKey (toString_base64 (2 # example_secret)),
          privateKey = example_secret, isInjective = Some True\<rparr>"
  by (simp add: RawKey_new_def toy_crypto_def example_secret_def bindE_def)

lemma toy_crypto_contract: "crypto_contract toy_crypto"
  by (auto simp: crypto_contract_def toy_crypto_def split: if_splits)

lemma toy_default_nonce_deterministic: "default_nonce_deterministic toy_ecdsaSign"
  by (simp add: default_nonce_deterministic_def toy_ecdsaSign_def)

text \<open>
  Determinism is not built into the model: with a routine that draws its nonce, two calls
  of \<^verbatim>\<open>sign\<close> on the same key and payload give different signatures.
\<close>

lemma random_nonce_differs:
  "RawKey_sign (crypto_in_call toy_crypto random_ecdsaSign (\<lambda>n. 0))
     \<lparr>publicKey = SimplePublicKey (toString_base64 (2 # example_secret)),
      privateKey = example_secret, isInjective = None\<rparr> [1, 2, 3]
   \<noteq> RawKey_sign (crypto_in_call toy_crypto random_ecdsaSign (\<lambda>n. 255))
     \<lparr>publicKey = SimplePublicKey (toString_base64 (2 # example_secret)),
      privateKey = example_secret, isInjective = None\<rparr> [1, 2, 3]"
  by (simp add: RawKey_sign_unfold crypto_in_call_def random_ecdsaSign_def bindE_def upt_rec)

section \<open>The claims\<close>

text \<open>
  C1. For every \<^verbatim>\<open>MsgStoreCode\<close> value and the shapes Amino, Data and Proto, and for
  every \<^verbatim>\<open>MsgUpdateClient\<close> value and the shapes Data and Proto, decoding the encoding
  gives back the message, all fields equal.
\<close>

theorem roundtrip_law:
  assumes "MsgStoreCode_typed m" and "MsgUpdateClient_typed u"
  shows "MsgStoreCode_fromAmino (MsgStoreCode_toAmino m c) c' = Inr m \<and>
         MsgStoreCode_fromData (MsgStoreCode_toData m c) c' = Inr m \<and>
         MsgStoreCode_fromProto (MsgStoreCode_toProto m c) c' = Inr m \<and>
         MsgUpdateClient_fromData (MsgUpdateClient_toData u c) c' = Inr u \<and>
         MsgUpdateClient_fromProto (MsgUpdateClient_toProto u c) c' = Inr u"
  using assms
  by (simp add: MsgStoreCode_amino_roundtrip MsgStoreCode_data_roundtrip
      MsgStoreCode_proto_roundtrip MsgUpdateClient_data_roundtrip MsgUpdateClient_proto_roundtrip)

theorem roundtrip_law_witness:
  "MsgStoreCode_typed example_MsgStoreCode \<and> MsgUpdateClient_typed example_MsgUpdateClient \<and>
   MsgStoreCode_fromAmino (MsgStoreCode_toAmino example_MsgStoreCode None) None
     = Inr example_MsgStoreCode \<and>
   MsgStoreCode_fromData (MsgStoreCode_toData example_MsgStoreCode None) None
     = Inr example_MsgStoreCode \<and>
   MsgStoreCode_fromProto (MsgStoreCode_toProto example_MsgStoreCode None) None
     = Inr example_MsgStoreCode \<and>
   MsgUpdateClient_fromData (MsgUpdateClient_toData example_MsgUpdateClient None) None
     = Inr example_MsgUpdateClient \<and>
   MsgUpdateClient_fromProto (MsgUpdateClient_toProto example_MsgUpdateClient None) None
     = Inr example_MsgUpdateClient"
  using roundtrip_law [OF example_MsgStoreCode_typed example_MsgUpdateClient_typed, of None None]
    example_MsgStoreCode_typed example_MsgUpdateClient_typed
  by simp

text \<open>
  C2. A key constructed for the Standard family (\<^verbatim>\<open>isInjective\<close> falsy) signs the
  SHA-256 digest of the payload, a key constructed for the EvmStyle family
  (\<^verbatim>\<open>isInjective\<close> true) signs its Keccak-256 digest, both with ECDSA over secp256k1 under
  the private key given at construction; the flag given at construction alone selects the
  digest.
\<close>

theorem sign_digest_by_family:
  assumes "RawKey_new lib sk flag = Inr k"
  shows "RawKey_sign lib k payload =
           bindE (secp256k1_ecdsaSign lib
                    (if truthy flag then keccak256 lib payload else SHA256_hash lib payload) sk)
             (\<lambda>r. Inr (signature r))"
  using RawKey_new_fields [OF assms] by (simp add: RawKey_sign_unfold)

theorem sign_digest_by_family_witness:
  "RawKey_sign toy_crypto
     \<lparr>publicKey = SimplePublicKey (toString_base64 (2 # example_secret)),
      privateKey = example_secret, isInjective = None\<rparr> [1, 2, 3]
     = Inr ([1, 2, 3] @ replicate 29 0 @ example_secret) \<and>
   RawKey_sign toy_crypto
     \<lparr>publicKey = InjectivePubKey (toString_base64 (2 # example_secret)),
      privateKey = example_secret, isInjective = Some True\<rparr> [1, 2, 3]
     = Inr ([3, 2, 1] @ replicate 29 255 @ example_secret)"
  using sign_digest_by_family [OF example_key_standard, of "[1, 2, 3]"]
    sign_digest_by_family [OF example_key_injective, of "[1, 2, 3]"]
  by (simp add: toy_crypto_def example_secret_def bindE_def)

text \<open>
  C3, as the code has it. \<^verbatim>\<open>unpackAny\<close> never compares the type URL of the envelope
  with the one it expects: it decodes an envelope of another message type and returns a
  message, where the specification asks for a type mismatch error.
\<close>

theorem unpackAny_mismatch_counterexample:
  "MsgUpdateClient_packAny MsgUpdateClient_pb_wire
     \<lparr>client_id = JString '''', clientMessage = JUndefined, signer = JString ''''\<rparr> None
     = JObject [''typeUrl'' \<mapsto> JString ''/ibc.core.client.v1.MsgUpdateClient'',
                ''value'' \<mapsto> JBytes []] \<and>
   MsgStoreCode_unpackAny MsgStoreCode_pb_wire
     (MsgUpdateClient_packAny MsgUpdateClient_pb_wire
        \<lparr>client_id = JString '''', clientMessage = JUndefined, signer = JString ''''\<rparr> None)
     None
     = Inr \<lparr>creator = JString '''', admin = JString '''',
            code = JString '''', params = JString ''''\<rparr>"
proof -
  have enc: "MsgUpdateClient_packAny MsgUpdateClient_pb_wire
     \<lparr>client_id = JString '''', clientMessage = JUndefined, signer = JString ''''\<rparr> None
     = JObject [''typeUrl'' \<mapsto> JString ''/ibc.core.client.v1.MsgUpdateClient'',
                ''value'' \<mapsto> JBytes []]"
    by (simp add: MsgUpdateClient_packAny_envelope MsgUpdateClient_pb_wire_def
        MsgUpdateClient_pb_encode_def MsgUpdateClient_toProto_def
        MsgUpdateClient_pb_fromPartial_def nullish_coalesce_def write_string_def)
  show ?thesis
    unfolding enc
    by (simp add: MsgStoreCode_unpackAny_value MsgStoreCode_pb_wire_def
        MsgStoreCode_pb_decode_def MsgStoreCode_fromProto_def js_get_def bindE_def)
qed

text \<open>
  C3, amended. \<^verbatim>\<open>unpackAny\<close> compares no type URLs. Its result is determined by the
  value of the envelope: two envelopes with the same value unpack alike whatever their
  type URLs, and the encoding of a message is unpacked to that message under any type
  URL. It fails in three ways only: with a \<^verbatim>\<open>TypeError\<close> when the envelope is
  \<^verbatim>\<open>undefined\<close> or \<^verbatim>\<open>null\<close>, with the error of the decoder, and with a
  \<^verbatim>\<open>TypeError\<close> when the decoder returns \<^verbatim>\<open>undefined\<close> or \<^verbatim>\<open>null\<close>; otherwise it
  returns the message read from the decoded object.
\<close>

theorem unpackAny_ignores_typeUrl:
  assumes "js_get a1 ''value'' = js_get a2 ''value''"
    and "MsgStoreCode_typed m"
    and "pb_decode codec (JBytes (pb_encode codec (MsgStoreCode_toProto m ic)))
           = Inr (MsgStoreCode_toProto m ic)"
  shows "MsgStoreCode_unpackAny codec1 a1 ic1 = MsgStoreCode_unpackAny codec1 a2 ic1 \<and>
         MsgUpdateClient_unpackAny codec2 a1 ic2 = MsgUpdateClient_unpackAny codec2 a2 ic2 \<and>
         MsgStoreCode_unpackAny codec
           (JObject [''typeUrl'' \<mapsto> t,
                     ''value'' \<mapsto> JBytes (pb_encode codec (MsgStoreCode_toProto m ic))]) ic'
           = Inr m \<and>
         MsgStoreCode_unpackAny codec1 a ic1 =
           (if nullish a then Inl TypeError
            else (case pb_decode codec1 (js_prop a ''value'') of
                    Inl e \<Rightarrow> Inl e
                  | Inr proto \<Rightarrow>
                      if nullish proto then Inl TypeError
                      else Inr \<lparr>creator = js_prop proto ''creator'',
                                admin = js_prop proto ''admin'',
                                code = js_prop proto ''code'',
                                params = js_prop proto ''params''\<rparr>)) \<and>
         MsgUpdateClient_unpackAny codec2 a ic2 =
           (if nullish a then Inl TypeError
            else (case pb_decode codec2 (js_prop a ''value'') of
                    Inl e \<Rightarrow> Inl e
                  | Inr proto \<Rightarrow>
                      if nullish proto then Inl TypeError
                      else Inr \<lparr>client_id = js_prop proto ''clientId'',
                                clientMessage = js_prop proto ''clientMessage'',
                                signer = js_prop proto ''signer''\<rparr>))"
proof -
  have "MsgStoreCode_unpackAny codec1 a1 ic1 = MsgStoreCode_unpackAny codec1 a2 ic1"
    using assms(1) by (simp add: MsgStoreCode_unpackAny_def)
  moreover have "MsgUpdateClient_unpackAny codec2 a1 ic2 = MsgUpdateClient_unpackAny codec2 a2 ic2"
    using assms(1) by (simp add: MsgUpdateClient_unpackAny_def)
  moreover have "MsgStoreCode_unpackAny codec
           (JObject [''typeUrl'' \<mapsto> t,
                     ''value'' \<mapsto> JBytes (pb_encode codec (MsgStoreCode_toProto m ic))]) ic'
           = Inr m"
    using assms(2,3)
    by (simp add: MsgStoreCode_unpackAny_value bindE_def MsgStoreCode_proto_roundtrip)
  ultimately show ?thesis
    using MsgStoreCode_unpackAny_cases [of codec1 a ic1]
      MsgUpdateClient_unpackAny_cases [of codec2 a ic2]
    by blast
qed

theorem unpackAny_ignores_typeUrl_witness:
  "MsgStoreCode_unpackAny MsgStoreCode_pb_wire
     (JObject [''typeUrl'' \<mapsto> JString ''/jax.MsgStoreCode'', ''value'' \<mapsto> JBytes []]) None
   = MsgStoreCode_unpackAny MsgStoreCode_pb_wire
     (JObject [''typeUrl'' \<mapsto> JString ''/ibc.core.client.v1.MsgUpdateClient'',
               ''value'' \<mapsto> JBytes []]) None \<and>
   MsgStoreCode_unpackAny MsgStoreCode_pb_wire
     (JObject [''typeUrl'' \<mapsto> JString ''/ibc.core.client.v1.MsgUpdateClient'',
               ''value'' \<mapsto> JBytes (pb_encode MsgStoreCode_pb_wire
                   (MsgStoreCode_toProto example_MsgStoreCode None))]) None
   = Inr example_MsgStoreCode \<and>
   MsgStoreCode_unpackAny MsgStoreCode_pb_wire JNull None = Inl TypeError \<and>
   MsgUpdateClient_unpackAny MsgUpdateClient_pb_wire JNull None = Inl TypeError"
proof -
  have same: "js_get (JObject [''typeUrl'' \<mapsto> JString ''/jax.MsgStoreCode'',
                              ''value'' \<mapsto> JBytes []]) ''value''
    = js_get (JObject [''typeUrl'' \<mapsto> JString ''/ibc.core.client.v1.MsgUpdateClient'',
                       ''value'' \<mapsto> JBytes []]) ''value''"
    by (simp add: js_get_def)
  from unpackAny_ignores_typeUrl [OF same example_MsgStoreCode_typed wire_MsgStoreCode_example,
      of MsgStoreCode_pb_wire None MsgUpdateClient_pb_wire None
         "JString ''/ibc.core.client.v1.MsgUpdateClient''" None JNull]
  show ?thesis by simp
qed

text \<open>
  C4. Packing a message into an \<^verbatim>\<open>Any\<close> envelope and unpacking it with the decoder of
  its own type gives back the message; the envelope holds the constant type URL of the
  variant and, as its value, the binary encoding of \<^verbatim>\<open>toProto\<close>. The binary codec is the
  library's: it is asked to read back what it wrote for this message.
\<close>

theorem envelope_integrity:
  assumes "MsgStoreCode_typed m" and "MsgUpdateClient_typed u"
    and "pb_decode codec1 (JBytes (pb_encode codec1 (MsgStoreCode_toProto m ic)))
           = Inr (MsgStoreCode_toProto m ic)"
    and "pb_decode codec2 (JBytes (pb_encode codec2 (MsgUpdateClient_toProto u None)))
           = Inr (MsgUpdateClient_toProto u None)"
  shows "MsgStoreCode_unpackAny codec1 (MsgStoreCode_packAny codec1 m ic) ic' = Inr m \<and>
         MsgStoreCode_packAny codec1 m ic = JObject [
           ''typeUrl'' \<mapsto> JString ''/jax.MsgStoreCode'',
           ''value'' \<mapsto> JBytes (pb_encode codec1 (MsgStoreCode_toProto m ic))] \<and>
         MsgUpdateClient_unpackAny codec2 (MsgUpdateClient_packAny codec2 u ic) ic' = Inr u \<and>
         MsgUpdateClient_packAny codec2 u ic = JObject [
           ''typeUrl'' \<mapsto> JString ''/ibc.core.client.v1.MsgUpdateClient'',
           ''value'' \<mapsto> JBytes (pb_encode codec2 (MsgUpdateClient_toProto u ic))]"
proof -
  have "MsgStoreCode_unpackAny codec1 (MsgStoreCode_packAny codec1 m ic) ic' = Inr m"
    using assms(1,3)
    by (simp add: MsgStoreCode_packAny_envelope MsgStoreCode_unpackAny_value bindE_def
        MsgStoreCode_proto_roundtrip)
  moreover have "MsgUpdateClient_unpackAny codec2 (MsgUpdateClient_packAny codec2 u ic) ic' = Inr u"
    using assms(2,4)
    by (simp add: MsgUpdateClient_packAny_envelope MsgUpdateClient_unpackAny_value bindE_def
        MsgUpdateClient_proto_roundtrip)
  moreover have "MsgUpdateClient_toProto u ic = MsgUpdateClient_toProto u None"
    by (simp add: MsgUpdateClient_toProto_def)
  ultimately show ?thesis
    by (simp add: MsgStoreCode_packAny_envelope MsgUpdateClient_packAny_envelope)
qed

theorem envelope_integrity_witness:
  "MsgStoreCode_unpackAny MsgStoreCode_pb_wire
     (MsgStoreCode_packAny MsgStoreCode_pb_wire example_MsgStoreCode None) None
     = Inr example_MsgStoreCode \<and>
   MsgUpdateClient_unpackAny MsgUpdateClient_pb_wire
     (MsgUpdateClient_packAny MsgUpdateClient_pb_wire example_MsgUpdateClient None) None
     = Inr example_MsgUpdateClient"
  using envelope_integrity [OF example_MsgStoreCode_typed example_MsgUpdateClient_typed
      wire_MsgStoreCode_example wire_MsgUpdateClient_example, of None]
  by blast

text \<open>
  C5. The message with creator and admin \<^verbatim>\<open>acc1...\<close>, code \<^verbatim>\<open>contract-source\<close> and
  params \<^verbatim>\<open>{}\<close>: \<^verbatim>\<open>fromProto\<close> of its \<^verbatim>\<open>toProto\<close> has the same four fields, and
  its \<^verbatim>\<open>toData\<close> is exactly the object of the scenario.
\<close>

theorem concrete_scenario:
  "MsgStoreCode_fromProto
     (MsgStoreCode_toProto
        \<lparr>creator = JString ''acc1...'', admin = JString ''acc1...'',
         code = JString ''contract-source'', params = JString ''{}''\<rparr> None) None
     = Inr \<lparr>creator = JString ''acc1...'', admin = JString ''acc1...'',
            code = JString ''contract-source'', params = JString ''{}''\<rparr> \<and>
   MsgStoreCode_toData
     \<lparr>creator = JString ''acc1...'', admin = JString ''acc1...'',
      code = JString ''contract-source'', params = JString ''{}''\<rparr> None
     = JObject [''@type'' \<mapsto> JString ''/jax.MsgStoreCode'',
                ''creator'' \<mapsto> JString ''acc1...'',
                ''admin'' \<mapsto> JString ''acc1...'',
                ''code'' \<mapsto> JString ''contract-source'',
                ''params'' \<mapsto> JString ''{}'']"
  by (simp add: MsgStoreCode_fromProto_def MsgStoreCode_toProto_def MsgStoreCode_toData_def
      MsgStoreCode_pb_fromPartial_def nullish_coalesce_def js_get_def bindE_def)

text \<open>
  C6. With the library's default nonce function deterministic, two calls of \<^verbatim>\<open>sign\<close>
  on the same payload give the same signature, whatever random bytes each call could
  draw, for one Standard-family key used twice and for any two Standard-family keys that
  hold the same private key: the result is the signature the library computes, with no
  options, over the SHA-256 digest of the payload under the stored secret.
\<close>

theorem sign_deterministic:
  assumes "default_nonce_deterministic ecdsaSign"
    and "\<not> truthy (isInjective k1)" and "\<not> truthy (isInjective k2)"
    and "privateKey k1 = privateKey k2"
  shows "RawKey_sign (crypto_in_call lib ecdsaSign e1) k1 payload
           = RawKey_sign (crypto_in_call lib ecdsaSign e2) k2 payload \<and>
         RawKey_sign (crypto_in_call lib ecdsaSign e1) k1 payload
           = bindE (ecdsaSign e1 (SHA256_hash lib payload) (privateKey k1) None)
               (\<lambda>r. Inr (signature r))"
proof -
  have pin: "RawKey_sign (crypto_in_call lib ecdsaSign e) k payload
           = bindE (ecdsaSign e (SHA256_hash lib payload) (privateKey k) None)
               (\<lambda>r. Inr (signature r))"
    if "\<not> truthy (isInjective k)" for e k
    using that by (simp add: RawKey_sign_unfold crypto_in_call_def)
  have "ecdsaSign e1 (SHA256_hash lib payload) (privateKey k1) None
      = ecdsaSign e2 (SHA256_hash lib payload) (privateKey k2) None"
    using assms(1,4) unfolding default_nonce_deterministic_def by metis
  then show ?thesis
    using pin [OF assms(2)] pin [OF assms(3)] by simp
qed

theorem sign_deterministic_witness:
  "default_nonce_deterministic toy_ecdsaSign \<and>
   RawKey_sign (crypto_in_call toy_crypto toy_ecdsaSign (\<lambda>n. 0))
     \<lparr>publicKey = SimplePublicKey (toString_base64 (2 # example_secret)),
      privateKey = example_secret, isInjective = None\<rparr> [1, 2, 3]
     = Inr ([1, 2, 3] @ replicate 29 0 @ example_secret) \<and>
   RawKey_sign (crypto_in_call toy_crypto toy_ecdsaSign (\<lambda>n. 255))
     \<lparr>publicKey = SimplePublicKey '''',
      privateKey = example_secret, isInjective = Some False\<rparr> [1, 2, 3]
     = Inr ([1, 2, 3] @ replicate 29 0 @ example_secret)"
proof -
  let ?k1 = "\<lparr>publicKey = SimplePublicKey (toString_base64 (2 # example_secret)),
        privateKey = example_secret, isInjective = None\<rparr>"
  let ?k2 = "\<lparr>publicKey = SimplePublicKey '''',
        privateKey = example_secret, isInjective = Some False\<rparr>"
  have same: "RawKey_sign (crypto_in_call toy_crypto toy_ecdsaSign (\<lambda>n. 255)) ?k2 [1, 2, 3]
      = RawKey_sign (crypto_in_call toy_crypto toy_ecdsaSign (\<lambda>n. 0)) ?k1 [1, 2, 3]"
    using sign_deterministic [OF toy_default_nonce_deterministic,
        of ?k1 ?k2 toy_crypto "\<lambda>n. 0" "[1, 2, 3]" "\<lambda>n. 255"]
    by simp
  have run: "RawKey_sign (crypto_in_call toy_crypto toy_ecdsaSign (\<lambda>n. 0)) ?k1 [1, 2, 3]
      = Inr ([1, 2, 3] @ replicate 29 0 @ example_secret)"
    by (simp add: RawKey_sign_unfold crypto_in_call_def toy_ecdsaSign_def toy_crypto_def
        example_secret_def bindE_def)
  show ?thesis
    using toy_default_nonce_deterministic same run by simp
qed

text \<open>
  C7. \<^verbatim>\<open>MsgUpdateClient.fromAmino\<close> and \<^verbatim>\<open>toAmino\<close> throw
  \<^verbatim>\<open>Error('Amino not supported')\<close> on every input and return nothing, while the Data
  and Proto conversions of the same class return a value on every object.
\<close>

theorem MsgUpdateClient_amino_unsupported:
  "MsgUpdateClient_fromAmino x isClassic = Inl (Error ''Amino not supported'') \<and>
   MsgUpdateClient_toAmino u = Inl (Error ''Amino not supported'') \<and>
   MsgUpdateClient_fromData (MsgUpdateClient_toData u c) c' = Inr u \<and>
   MsgUpdateClient_fromData (JObject d) c' =
     Inr \<lparr>client_id = js_prop (JObject d) ''client_id'',
          clientMessage = js_prop (JObject d) ''clientMessage'',
          signer = js_prop (JObject d) ''signer''\<rparr> \<and>
   MsgUpdateClient_fromProto (JObject p) c' =
     Inr \<lparr>client_id = js_prop (JObject p) ''clientId'',
          clientMessage = js_prop (JObject p) ''clientMessage'',
          signer = js_prop (JObject p) ''signer''\<rparr> \<and>
   (\<exists>p. MsgUpdateClient_toProto u c = JObject p) \<and>
   (\<exists>d. MsgUpdateClient_toData u c = JObject d)"
  by (simp add: MsgUpdateClient_fromAmino_def MsgUpdateClient_toAmino_def
      MsgUpdateClient_data_roundtrip MsgUpdateClient_fromData_def MsgUpdateClient_fromProto_def
      MsgUpdateClient_toProto_def MsgUpdateClient_pb_fromPartial_def MsgUpdateClient_toData_def
      js_get_def bindE_def)

text \<open>
  C8, as the code has it. \<^verbatim>\<open>MsgStoreCode.fromAmino\<close> and \<^verbatim>\<open>fromData\<close> construct a
  message from a payload that has the shape of neither generation, where the
  specification asks for a schema ambiguity error.
\<close>

theorem no_schema_inspection_counterexample:
  "MsgStoreCode_fromAmino
     (JObject [''type'' \<mapsto> JString ''jax/MsgStoreCode'',
               ''value'' \<mapsto> JObject [''creator'' \<mapsto> JString ''acc1...'']]) None
     = Inr \<lparr>creator = JString ''acc1...'', admin = JUndefined,
            code = JUndefined, params = JUndefined\<rparr> \<and>
   MsgStoreCode_fromData
     (JObject [''@type'' \<mapsto> JString ''/cosmos.bank.v1beta1.MsgSend'',
               ''from_address'' \<mapsto> JString ''acc1...'']) None
     = Inr \<lparr>creator = JUndefined, admin = JUndefined,
            code = JUndefined, params = JUndefined\<rparr>"
  by (simp add: MsgStoreCode_fromAmino_def MsgStoreCode_fromData_def js_get_def bindE_def)

text \<open>
  C8, amended. \<^verbatim>\<open>MsgStoreCode.fromAmino\<close> and \<^verbatim>\<open>fromData\<close> inspect nothing: they
  read the four fields from whatever payload they are given, a missing field as
  \<^verbatim>\<open>undefined\<close>, and fail only with the \<^verbatim>\<open>TypeError\<close> of destructuring
  \<^verbatim>\<open>undefined\<close> or \<^verbatim>\<open>null\<close>.
\<close>

theorem no_schema_inspection:
  "MsgStoreCode_fromAmino payload isClassic =
     (if nullish payload \<or> nullish (js_prop payload ''value'') then Inl TypeError
      else Inr \<lparr>creator = js_prop (js_prop payload ''value'') ''creator'',
                admin = js_prop (js_prop payload ''value'') ''admin'',
                code = js_prop (js_prop payload ''value'') ''code'',
                params = js_prop (js_prop payload ''value'') ''params''\<rparr>) \<and>
   MsgStoreCode_fromData payload isClassic =
     (if nullish payload then Inl TypeError
      else Inr \<lparr>creator = js_prop payload ''creator'',
                admin = js_prop payload ''admin'',
                code = js_prop payload ''code'',
                params = js_prop payload ''params''\<rparr>)"
  by (simp add: MsgStoreCode_fromAmino_def MsgStoreCode_fromData_def js_get_def bindE_def)

text \<open>
  C10. With libraries that keep their promises, \<^verbatim>\<open>sign\<close> of a constructed key resolves,
  for every payload and both families, to the 64 bytes of the signature the signing
  routine returned; the recovery id is not part of the result, which stays the same
  whatever recovery id the routine returns.
\<close>

theorem sign_compact_signature:
  assumes "crypto_contract lib" and "RawKey_new lib sk flag = Inr k"
  shows "(\<exists>r. secp256k1_ecdsaSign lib
                (if truthy flag then keccak256 lib payload else SHA256_hash lib payload) sk = Inr r \<and>
              RawKey_sign lib k payload = Inr (signature r) \<and>
              length (signature r) = 64) \<and>
         RawKey_sign
           (lib\<lparr>secp256k1_ecdsaSign :=
                 \<lambda>msg key. map_sum id (recid_update g) (secp256k1_ecdsaSign lib msg key)\<rparr>)
           k payload = RawKey_sign lib k payload"
proof -
  let ?h = "if truthy flag then keccak256 lib payload else SHA256_hash lib payload"
  from assms(2) obtain pk where pk: "secp256k1_publicKeyCreate lib sk True = Inr pk"
    by (auto simp: RawKey_new_def bindE_def split: sum.splits)
  have len: "length ?h = 32"
    using assms(1) by (simp add: crypto_contract_def)
  from assms(1) pk len obtain r where r: "secp256k1_ecdsaSign lib ?h sk = Inr r"
    unfolding crypto_contract_def by blast
  from assms(1) r have "length (signature r) = 64"
    unfolding crypto_contract_def by blast
  moreover have "RawKey_sign lib k payload = Inr (signature r)"
    using r by (simp add: RawKey_sign_unfold RawKey_new_fields [OF assms(2)] bindE_def)
  ultimately have first: "\<exists>r. secp256k1_ecdsaSign lib ?h sk = Inr r \<and>
             RawKey_sign lib k payload = Inr (signature r) \<and> length (signature r) = 64"
    using r by blast
  have second: "RawKey_sign
           (lib\<lparr>secp256k1_ecdsaSign :=
                 \<lambda>msg key. map_sum id (recid_update g) (secp256k1_ecdsaSign lib msg key)\<rparr>)
           k payload = RawKey_sign lib k payload"
    by (simp add: RawKey_sign_unfold bindE_def split: sum.splits)
  from first second show ?thesis by blast
qed

theorem sign_compact_signature_witness:
  "crypto_contract toy_crypto \<and>
   RawKey_sign toy_crypto
     \<lparr>publicKey = InjectivePubKey (toString_base64 (2 # example_secret)),
      privateKey = example_secret, isInjective = Some True\<rparr> [1, 2, 3]
     = Inr ([3, 2, 1] @ replicate 29 255 @ example_secret) \<and>
   length ([3, 2, 1] @ replicate 29 255 @ example_secret) = 64 \<and>
   RawKey_sign
     (toy_crypto\<lparr>secp256k1_ecdsaSign :=
        \<lambda>msg key. map_sum id (recid_update (\<lambda>n. 1))
          (secp256k1_ecdsaSign toy_crypto msg key)\<rparr>)
     \<lparr>publicKey = InjectivePubKey (toString_base64 (2 # example_secret)),
      privateKey = example_secret, isInjective = Some True\<rparr> [1, 2, 3]
     = Inr ([3, 2, 1] @ replicate 29 255 @ example_secret)"
  using sign_compact_signature [OF toy_crypto_contract example_key_injective,
      of "[1, 2, 3]" "\<lambda>n. 1"] toy_crypto_contract
  by (simp add: toy_crypto_def example_secret_def bindE_def RawKey_sign_unfold)

end
